theory Spec2Isabelle
  imports Complex_Main
begin

section \<open>Python values\<close>

text \<open>
  The connector receives its configuration and the RPC and attribute requests as Python
  dicts decoded from JSON.  A dict is an association list with string keys (the first
  binding of a key is the one \<open>dict.get\<close> sees); a finite float is the rational it
  denotes, which is all that truth testing needs.
\<close>

datatype pyval =
    PNone
  | PBool bool
  | PInt int
  | PFloat rat
  | PStr string
  | PList "pyval list"
  | PDict "(string \<times> pyval) list"

type_synonym pydict = "(string \<times> pyval) list"

text \<open>Python truth value testing, as \<open>if request_id:\<close> performs it.\<close>

fun truthy :: "pyval \<Rightarrow> bool" where
  "truthy PNone = False"
| "truthy (PBool b) = b"
| "truthy (PInt n) = (n \<noteq> 0)"
| "truthy (PFloat r) = (r \<noteq> 0)"
| "truthy (PStr s) = (s \<noteq> [])"
| "truthy (PList xs) = (xs \<noteq> [])"
| "truthy (PDict kvs) = (kvs \<noteq> [])"

text \<open>\<open>d.get(k, dflt)\<close>; \<open>d.get(k)\<close> is \<open>dict_get d k PNone\<close>.\<close>

definition dict_get :: "pydict \<Rightarrow> string \<Rightarrow> pyval \<Rightarrow> pyval" where
  "dict_get d k dflt = (case map_of d k of None \<Rightarrow> dflt | Some v \<Rightarrow> v)"

section \<open>What the connector imports\<close>

text \<open>
  The constants of \<open>thingsboard_gateway.gateway.constants\<close>, the rendering of a value
  inside an f-string and the argument check of \<open>time.sleep\<close> are not part of the two
  source files; the model takes them as parameters.
\<close>

record py_env =
  DEVICE_SECTION_PARAMETER :: string
  DATA_PARAMETER :: string
  RPC_METHOD_PARAMETER :: string
  RPC_PARAMS_PARAMETER :: string
  format_value :: "pyval \<Rightarrow> string"
  sleep_accepts :: "pyval \<Rightarrow> bool"

text \<open>
  The logger and the gateway are collaborators: the model keeps the calls made on them,
  in order.  \<open>InitLogger\<close> is the call of \<open>init_logger\<close> (name, level, remote logging
  switch, connector logger switch), \<open>StopLogger\<close> is \<open>log.stop()\<close>.
\<close>

datatype level = DEBUG | INFO | WARNING

datatype log_call =
    InitLogger string pyval pyval bool
  | Log level string "pyval list"
  | StopLogger

datatype gateway_call =
    GetLogger string
  | SendRpcReply pyval pyval pyval

text \<open>
  The connector of the extensions package is a \<open>threading.Thread\<close>.  Its worker is
  either not started yet, at one of the points where \<open>run\<close> can be suspended, or over:
  \<open>Started\<close> is before the first statement of \<open>run\<close>, \<open>Connecting\<close> is inside
  \<open>time.sleep(1)\<close>, \<open>LoopTest\<close> is before the test of the \<open>while\<close>, \<open>LoopBody\<close> is
  after a test that passed and before the first statement of the body, \<open>Polling\<close> is
  inside the sleep of the loop body, \<open>Finished\<close> is after \<open>run\<close> returned and
  \<open>Crashed\<close> after it raised.
\<close>

datatype thread_state =
  Initial | Started | Connecting | LoopTest | LoopBody | Polling | Finished | Crashed

datatype thread_call = Start | Join int

datatype py_exn = RuntimeError

section \<open>The connector of \<open>extensions/iec104\<close>\<close>

record iecConnector =
  gateway :: "gateway_call list"
  config :: pydict
  connector_name :: string
  logger :: "log_call list"
  connected :: bool
  stopped :: bool
  daemon :: bool
  thread :: thread_state
  thread_calls :: "thread_call list"
  sleeps :: "pyval list"

definition log_msg :: "level \<Rightarrow> string \<Rightarrow> pyval list \<Rightarrow> iecConnector \<Rightarrow> iecConnector" where
  "log_msg l template args s = s\<lparr>logger := logger s @ [Log l template args]\<rparr>"

text \<open>\<open>__init__\<close>, given the calls the gateway has received so far.\<close>

definition iecConnector_init :: "gateway_call list \<Rightarrow> pydict \<Rightarrow> string \<Rightarrow> iecConnector" where
  "iecConnector_init gw cfg name =
     \<lparr>gateway = gw,
      config = cfg,
      connector_name = name,
      logger = [InitLogger name (dict_get cfg ''logLevel'' (PStr ''INFO''))
                  (dict_get cfg ''enableRemoteLogging'' (PBool False)) True,
                Log DEBUG ''Initializing iecConnector: %s'' [PStr name]],
      connected = False,
      stopped = False,
      daemon = True,
      thread = Initial,
      thread_calls = [],
      sleeps = []\<rparr>"

definition get_id :: "iecConnector \<Rightarrow> string" where
  "get_id s = connector_name s"

definition get_name :: "iecConnector \<Rightarrow> string" where
  "get_name s = connector_name s"

definition get_type :: "iecConnector \<Rightarrow> string" where
  "get_type s = ''IEC104''"

definition get_config :: "iecConnector \<Rightarrow> pydict" where
  "get_config s = config s"

definition is_connected :: "iecConnector \<Rightarrow> bool" where
  "is_connected s = connected s"

definition is_stopped :: "iecConnector \<Rightarrow> bool" where
  "is_stopped s = stopped s"

subsection \<open>The thread\<close>

text \<open>\<open>Thread.is_alive\<close>: started and not over.\<close>

fun alive :: "thread_state \<Rightarrow> bool" where
  "alive Initial = False"
| "alive Started = True"
| "alive Connecting = True"
| "alive LoopTest = True"
| "alive LoopBody = True"
| "alive Polling = True"
| "alive Finished = False"
| "alive Crashed = False"

definition is_alive :: "iecConnector \<Rightarrow> bool" where
  "is_alive s = alive (thread s)"

text \<open>\<open>Thread.start\<close>: a thread object can be started once; a later call raises.\<close>

definition start :: "iecConnector \<Rightarrow> (py_exn + unit) \<times> iecConnector" where
  "start s =
     (let s1 = s\<lparr>thread_calls := thread_calls s @ [Start]\<rparr>
      in if thread s = Initial then (Inr (), s1\<lparr>thread := Started\<rparr>)
         else (Inl RuntimeError, s1))"

text \<open>
  \<open>run\<close>, one step at a time: a step takes the worker from one of these points to the
  next.  The worker wakes from a sleep when it takes the next step.  The test of the
  \<open>while\<close> is a step of its own: the gateway's thread can run between a test that
  passed and the body that follows it.  \<open>sleeps\<close> keeps the arguments of the calls of
  \<open>time.sleep\<close>; a call that \<open>time.sleep\<close> rejects raises in the worker and ends it.
\<close>

definition run_step :: "py_env \<Rightarrow> iecConnector \<Rightarrow> iecConnector" where
  "run_step env s =
     (case thread s of
        Initial \<Rightarrow> s
      | Started \<Rightarrow>
          (let s1 = log_msg INFO ''IEC connector thread '%s' has started its main loop.''
                      [PStr (connector_name s)] s;
               s2 = log_msg INFO ''Simulating connection to IEC device...'' [] s1
           in s2\<lparr>sleeps := sleeps s2 @ [PInt 1], thread := Connecting\<rparr>)
      | Connecting \<Rightarrow>
          (let s1 = s\<lparr>connected := True\<rparr>;
               s2 = log_msg INFO
                      ''Simulated connection successful. IEC connector is now marked as 'connected'.''
                      [] s1
           in s2\<lparr>thread := LoopTest\<rparr>)
      | LoopTest \<Rightarrow>
          (if \<not> stopped s then s\<lparr>thread := LoopBody\<rparr>
           else
             (let s1 = log_msg INFO ''IEC connector thread '%s' main loop finished.''
                         [PStr (connector_name s)] s
              in s1\<lparr>thread := Finished\<rparr>))
      | LoopBody \<Rightarrow>
          (let s1 = log_msg DEBUG ''IEC connector '%s' is running. Connected: %s''
                      [PStr (connector_name s), PBool (connected s)] s;
               d = dict_get (config s1) ''pollingInterval'' (PInt 5);
               s2 = s1\<lparr>sleeps := sleeps s1 @ [d]\<rparr>
           in if sleep_accepts env d then s2\<lparr>thread := Polling\<rparr>
              else s2\<lparr>thread := Crashed\<rparr>)
      | Polling \<Rightarrow> s\<lparr>thread := LoopTest\<rparr>
      | Finished \<Rightarrow> s
      | Crashed \<Rightarrow> s)"

text \<open>
  The worker running while another thread waits for it: it takes at most \<open>n\<close> steps and
  stops earlier when it is over.
\<close>

fun run_worker :: "py_env \<Rightarrow> nat \<Rightarrow> iecConnector \<Rightarrow> iecConnector" where
  "run_worker env 0 s = s"
| "run_worker env (Suc n) s = (if is_alive s then run_worker env n (run_step env s) else s)"

text \<open>
  \<open>Thread.join(timeout=t)\<close> returns when the worker is over or when \<open>t\<close> seconds have
  passed.  How far the worker gets within the bound is the scheduler's choice: \<open>n\<close> is
  the number of steps it is granted before the timeout.
\<close>

definition join :: "py_env \<Rightarrow> int \<Rightarrow> nat \<Rightarrow> iecConnector \<Rightarrow> iecConnector" where
  "join env t n s = run_worker env n (s\<lparr>thread_calls := thread_calls s @ [Join t]\<rparr>)"

subsection \<open>The methods the gateway calls\<close>

definition open_ext :: "iecConnector \<Rightarrow> (py_exn + unit) \<times> iecConnector" where
  "open_ext s =
     (let s1 = log_msg INFO ''Opening IEC connector and starting its thread.'' [] s;
          s2 = s1\<lparr>stopped := False\<rparr>
      in case start s2 of
           (Inl e, s3) \<Rightarrow> (Inl e, s3)
         | (Inr u, s3) \<Rightarrow>
             (Inr (), log_msg DEBUG ''IEC connector thread started successfully.'' [] s3))"

text \<open>
  \<open>close\<close> blocks in the join only; \<open>n\<close> is the number of steps the worker is
  granted while \<open>close\<close> waits there.
\<close>

definition close :: "py_env \<Rightarrow> nat \<Rightarrow> iecConnector \<Rightarrow> iecConnector" where
  "close env n s =
     (let s1 = log_msg INFO ''Closing IEC connector and stopping its thread.'' [] s;
          s2 = s1\<lparr>stopped := True\<rparr>;
          s3 = s2\<lparr>connected := False\<rparr>;
          s4 = (if is_alive s3 then
                  (let s' = join env 5 n s3
                   in if is_alive s' then
                        log_msg WARNING
                          ''IEC connector thread did not terminate gracefully within 5 seconds.''
                          [] s'
                      else s')
                else s3);
          s5 = log_msg INFO ''IEC connector thread stopped and resources cleaned.'' [] s4
      in s5\<lparr>logger := logger s5 @ [StopLogger]\<rparr>)"

definition server_side_rpc_handler ::
  "py_env \<Rightarrow> pydict \<Rightarrow> iecConnector \<Rightarrow> pyval \<times> iecConnector" where
  "server_side_rpc_handler env content s =
     (let s1 = log_msg INFO ''Received server-side RPC request: %s'' [PDict content] s;
          device_name = dict_get content (DEVICE_SECTION_PARAMETER env) PNone;
          request_id = dict_get content ''id'' PNone;
          method = dict_get content (RPC_METHOD_PARAMETER env) PNone;
          params = dict_get content (RPC_PARAMS_PARAMETER env) PNone;
          s2 = log_msg DEBUG ''RPC details: device_name=%s, method=%s, params=%s''
                 [device_name, method, params] s1;
          response_payload =
            PDict [(''status'', PStr ''success''),
                   (''message'',
                    PStr (''RPC method '' @ [CHR 0x27] @ format_value env method @ [CHR 0x27]
                          @ '' for device '' @ [CHR 0x27] @ format_value env device_name
                          @ [CHR 0x27] @ '' processed (simulated).''))];
          s3 = (if truthy request_id then
                  s2\<lparr>gateway := gateway s2 @ [SendRpcReply device_name request_id response_payload]\<rparr>
                else s2)
      in (response_payload, s3))"

definition on_attributes_update :: "py_env \<Rightarrow> pydict \<Rightarrow> iecConnector \<Rightarrow> iecConnector" where
  "on_attributes_update env content s =
     (let s1 = log_msg INFO ''Received attributes update from ThingsBoard: %s'' [PDict content] s;
          device_name = dict_get content (DEVICE_SECTION_PARAMETER env) PNone;
          attributes = dict_get content (DATA_PARAMETER env) PNone;
          s2 = log_msg DEBUG ''Attribute update details: device_name=%s, attributes=%s''
                 [device_name, attributes] s1
      in log_msg INFO ''Simulating attribute update for device '%s' with data: %s''
           [device_name, attributes] s2)"

section \<open>The connector of \<open>connectors/iec104\<close>\<close>

record iecConnector_pkg =
  gateway_pkg :: "gateway_call list"
  config_pkg :: pydict
  connector_name_pkg :: string
  log_pkg :: "log_call list"
  connected_pkg :: bool

text \<open>The first eight characters of the template of \<open>__init__\<close> are Chinese, in UTF-8.\<close>

definition iecConnector_pkg_init ::
  "gateway_call list \<Rightarrow> pydict \<Rightarrow> string \<Rightarrow> iecConnector_pkg" where
  "iecConnector_pkg_init gw cfg name =
     \<lparr>gateway_pkg = gw @ [GetLogger name],
      config_pkg = cfg,
      connector_name_pkg = name,
      log_pkg = [Log INFO
                   ([CHR 0xE5, CHR 0x88, CHR 0x9D, CHR 0xE5, CHR 0xA7, CHR 0x8B,
                     CHR 0xE5, CHR 0x8C, CHR 0x96, CHR 0xE6, CHR 0x88, CHR 0x91,
                     CHR 0xE7, CHR 0x9A, CHR 0x84, CHR 0xE8, CHR 0xBF, CHR 0x9E,
                     CHR 0xE6, CHR 0x8E, CHR 0xA5, CHR 0xE5, CHR 0x99, CHR 0xA8]
                    @ '' Config: %s'')
                   [PDict cfg]],
      connected_pkg = False\<rparr>"

definition open_pkg :: "iecConnector_pkg \<Rightarrow> iecConnector_pkg" where
  "open_pkg s =
     s\<lparr>log_pkg := log_pkg s @ [Log INFO ''Simulating connection establishment...'' []],
       connected_pkg := True\<rparr>"

definition close_pkg :: "iecConnector_pkg \<Rightarrow> iecConnector_pkg" where
  "close_pkg s =
     s\<lparr>log_pkg := log_pkg s @ [Log INFO ''Simulating closing connection...'' []],
       connected_pkg := False\<rparr>"

definition get_name_pkg :: "iecConnector_pkg \<Rightarrow> string" where
  "get_name_pkg s = connector_name_pkg s"

definition is_connected_pkg :: "iecConnector_pkg \<Rightarrow> bool" where
  "is_connected_pkg s = connected_pkg s"

definition on_attributes_update_pkg :: "pydict \<Rightarrow> iecConnector_pkg \<Rightarrow> iecConnector_pkg" where
  "on_attributes_update_pkg content s =
     s\<lparr>log_pkg := log_pkg s @ [Log INFO ''Received attribute update: %s'' [PDict content]]\<rparr>"

section \<open>Sequences of calls\<close>

text \<open>
  What can happen to a connector of the extensions package: the gateway calls one of its
  methods, or the worker takes a step.  An exception of \<open>open\<close> goes to the caller; the
  connector stays as the call left it.
\<close>

datatype event =
    Open
  | Close nat
  | ServerSideRpc pydict
  | OnAttributesUpdate pydict
  | WorkerStep

fun apply_event :: "py_env \<Rightarrow> event \<Rightarrow> iecConnector \<Rightarrow> iecConnector" where
  "apply_event env Open s = snd (open_ext s)"
| "apply_event env (Close n) s = close env n s"
| "apply_event env (ServerSideRpc content) s = snd (server_side_rpc_handler env content s)"
| "apply_event env (OnAttributesUpdate content) s = on_attributes_update env content s"
| "apply_event env WorkerStep s = run_step env s"

fun run_events :: "py_env \<Rightarrow> event list \<Rightarrow> iecConnector \<Rightarrow> iecConnector" where
  "run_events env [] s = s"
| "run_events env (e # es) s = run_events env es (apply_event env e s)"

datatype event_pkg = OpenPkg | ClosePkg | OnAttributesUpdatePkg pydict

fun apply_event_pkg :: "event_pkg \<Rightarrow> iecConnector_pkg \<Rightarrow> iecConnector_pkg" where
  "apply_event_pkg OpenPkg s = open_pkg s"
| "apply_event_pkg ClosePkg s = close_pkg s"
| "apply_event_pkg (OnAttributesUpdatePkg content) s = on_attributes_update_pkg content s"

fun run_events_pkg :: "event_pkg list \<Rightarrow> iecConnector_pkg \<Rightarrow> iecConnector_pkg" where
  "run_events_pkg [] s = s"
| "run_events_pkg (e # es) s = run_events_pkg es (apply_event_pkg e s)"

section \<open>Reading the traces\<close>

text \<open>\<open>payload[k]\<close> of a reply, \<open>None\<close> where the reply has no such field.\<close>

definition payload_get :: "pyval \<Rightarrow> string \<Rightarrow> pyval" where
  "payload_get p k = (case p of PDict d \<Rightarrow> dict_get d k PNone | _ \<Rightarrow> PNone)"

text \<open>The warning of \<open>close\<close> about a worker that outlived the join.\<close>

definition timeout_warning :: log_call where
  "timeout_warning =
     Log WARNING ''IEC connector thread did not terminate gracefully within 5 seconds.'' []"

text \<open>
  The body of the loop of \<open>run\<close> starts with a debug line that nothing else writes:
  the number of these lines is the number of times the body was entered.
\<close>

definition loop_template :: string where
  "loop_template = ''IEC connector '%s' is running. Connected: %s''"

fun is_loop_entry :: "log_call \<Rightarrow> bool" where
  "is_loop_entry (Log l template args) = (l = DEBUG \<and> template = loop_template)"
| "is_loop_entry c = False"

definition loop_entries :: "iecConnector \<Rightarrow> nat" where
  "loop_entries s = length (filter is_loop_entry (logger s))"

text \<open>
  The rounds whose test has passed: those whose body was entered, and the one of a
  worker that stands between the test and the body.
\<close>

definition rounds_begun :: "iecConnector \<Rightarrow> nat" where
  "rounds_begun s = loop_entries s + (if thread s = LoopBody then 1 else 0)"

section \<open>A concrete setting\<close>

text \<open>
  The constants as the gateway defines them, a rendering that is right on strings and
  \<open>None\<close>, and a \<open>time.sleep\<close> that takes the non-negative integers.
\<close>

definition example_env :: py_env where
  "example_env =
     \<lparr>DEVICE_SECTION_PARAMETER = ''device'',
      DATA_PARAMETER = ''data'',
      RPC_METHOD_PARAMETER = ''method'',
      RPC_PARAMS_PARAMETER = ''params'',
      format_value = (\<lambda>v. case v of PStr s \<Rightarrow> s | _ \<Rightarrow> ''None''),
      sleep_accepts = (\<lambda>v. case v of PInt n \<Rightarrow> 0 \<le> n | _ \<Rightarrow> False)\<rparr>"

definition example_config :: pydict where
  "example_config = [(''host'', PStr ''10.0.0.7''), (''port'', PInt 2404)]"

definition example_rpc :: pydict where
  "example_rpc =
     [(''device'', PStr ''rtu1''), (''id'', PInt 7), (''method'', PStr ''setValue''),
      (''params'', PBool True)]"

definition fresh :: iecConnector where
  "fresh = iecConnector_init [] example_config ''iec104''"

definition fresh_pkg :: iecConnector_pkg where
  "fresh_pkg = iecConnector_pkg_init [] example_config ''iec104''"

text \<open>
  The connector after \<open>open\<close>, its worker not yet scheduled; the connector whose worker
  is asleep in the first round of its loop; that connector closed with a join that
  timed out, once its worker has woken up; the connector whose worker has woken up from
  the first round and passed the test of the second; and the connector opened,
  connected and closed, its worker over.
\<close>

definition opened :: iecConnector where
  "opened = snd (open_ext fresh)"

definition looping :: iecConnector where
  "looping =
     run_events example_env [Open, WorkerStep, WorkerStep, WorkerStep, WorkerStep] fresh"

definition woken :: iecConnector where
  "woken = run_step example_env (close example_env 0 looping)"

definition in_round :: iecConnector where
  "in_round = run_events example_env [WorkerStep, WorkerStep] looping"

definition reopened :: iecConnector where
  "reopened = run_events example_env [Open, WorkerStep, WorkerStep, Close 1] fresh"

section \<open>Unfolding\<close>

lemmas example_defs = fresh_def fresh_pkg_def example_env_def example_config_def
  example_rpc_def iecConnector_init_def iecConnector_pkg_init_def opened_def looping_def
  woken_def in_round_def reopened_def

lemmas method_defs = open_ext_def start_def close_def join_def run_step_def log_msg_def
  is_alive_def is_connected_def is_stopped_def dict_get_def Let_def

section \<open>What no method and no step of the worker touches\<close>

lemma run_step_frame:
  "connector_name (run_step env s) = connector_name s \<and> config (run_step env s) = config s
   \<and> gateway (run_step env s) = gateway s \<and> thread_calls (run_step env s) = thread_calls s"
  by (simp add: run_step_def log_msg_def Let_def split: thread_state.splits)

lemma run_worker_frame:
  "connector_name (run_worker env n s) = connector_name s \<and> config (run_worker env n s) = config s
   \<and> gateway (run_worker env n s) = gateway s \<and> thread_calls (run_worker env n s) = thread_calls s"
  by (induction n arbitrary: s) (simp_all add: run_step_frame)

lemma open_ext_frame:
  "connector_name (snd (open_ext s)) = connector_name s \<and> config (snd (open_ext s)) = config s"
  by (simp add: open_ext_def start_def log_msg_def Let_def)

lemma close_frame:
  "connector_name (close env n s) = connector_name s \<and> config (close env n s) = config s"
  by (simp add: close_def join_def log_msg_def Let_def run_worker_frame)

lemma server_side_rpc_handler_frame:
  "connector_name (snd (server_side_rpc_handler env c s)) = connector_name s
   \<and> config (snd (server_side_rpc_handler env c s)) = config s"
  by (simp add: server_side_rpc_handler_def log_msg_def Let_def)

lemma on_attributes_update_frame:
  "connector_name (on_attributes_update env c s) = connector_name s
   \<and> config (on_attributes_update env c s) = config s"
  by (simp add: on_attributes_update_def log_msg_def Let_def)

lemma apply_event_frame:
  "connector_name (apply_event env e s) = connector_name s
   \<and> config (apply_event env e s) = config s"
  by (cases e) (simp_all add: open_ext_frame close_frame server_side_rpc_handler_frame
      on_attributes_update_frame run_step_frame)

lemma run_events_frame:
  "connector_name (run_events env es s) = connector_name s
   \<and> config (run_events env es s) = config s"
  by (induction es arbitrary: s) (simp_all add: apply_event_frame)

lemma run_events_pkg_frame:
  "connector_name_pkg (run_events_pkg es p) = connector_name_pkg p"
proof (induction es arbitrary: p)
  case Nil
  show ?case by simp
next
  case (Cons e es)
  have "connector_name_pkg (apply_event_pkg e p) = connector_name_pkg p"
    by (cases e) (simp_all add: open_pkg_def close_pkg_def on_attributes_update_pkg_def)
  with Cons show ?case by simp
qed

text \<open>
  Claim C10.  The name and the configuration given to the constructor are never
  modified: after any sequence of \<open>open\<close>, \<open>close\<close>, \<open>on_attributes_update\<close> and
  \<open>server_side_rpc_handler\<close> calls, interleaved in any way with the steps of the
  worker, \<open>get_name\<close> and \<open>get_id\<close> return the name and \<open>get_config\<close> returns the
  configuration that the constructor received; so does \<open>get_name\<close> of the connector of
  the connectors package after any sequence of its calls.
\<close>

theorem name_and_config_never_modified:
  "get_name (run_events env es (iecConnector_init gw cfg name)) = name
   \<and> get_id (run_events env es (iecConnector_init gw cfg name)) = name
   \<and> get_config (run_events env es (iecConnector_init gw cfg name)) = cfg
   \<and> get_name_pkg (run_events_pkg es' (iecConnector_pkg_init gw cfg name)) = name"
  by (simp add: get_name_def get_id_def get_config_def get_name_pkg_def run_events_frame
      run_events_pkg_frame iecConnector_init_def iecConnector_pkg_init_def)

section \<open>A connector just constructed\<close>

text \<open>
  Claim C8.  A connector that has just been constructed, whatever the gateway, the
  configuration and the name, reports that it is not connected; the connector of the
  extensions package also reports that it is not stopped.
\<close>

theorem fresh_connector_not_connected:
  "is_connected (iecConnector_init gw cfg name) = False
   \<and> is_stopped (iecConnector_init gw cfg name) = False
   \<and> is_connected_pkg (iecConnector_pkg_init gw cfg name) = False"
  by (simp add: is_connected_def is_stopped_def is_connected_pkg_def
        iecConnector_init_def iecConnector_pkg_init_def)

section \<open>The RPC handler\<close>

text \<open>
  Claim C9.  For every request and every state of the connector, connected or not,
  \<open>server_side_rpc_handler\<close> returns a reply of the two fields \<open>status\<close> and
  \<open>message\<close> whose status is \<open>success\<close>; it calls \<open>send_rpc_reply\<close> of the gateway
  once, with the device, the request id and that reply, when the \<open>id\<close> of the request
  is truthy, and not at all otherwise.  No request gets an error.
\<close>

theorem rpc_handler_always_success:
  "(\<exists>msg. fst (server_side_rpc_handler env content s) =
            PDict [(''status'', PStr ''success''), (''message'', PStr msg)])
   \<and> payload_get (fst (server_side_rpc_handler env content s)) ''status'' = PStr ''success''
   \<and> gateway (snd (server_side_rpc_handler env content s)) =
       gateway s @
       (if truthy (dict_get content ''id'' PNone)
        then [SendRpcReply (dict_get content (DEVICE_SECTION_PARAMETER env) PNone)
                (dict_get content ''id'' PNone) (fst (server_side_rpc_handler env content s))]
        else [])"
  by (simp add: server_side_rpc_handler_def log_msg_def Let_def dict_get_def payload_get_def)

text \<open>
  Claim C1 says that a request which arrives while the connector is not connected fails
  with \<open>NotConnected\<close> instead of reporting success.  The connector just constructed is
  not connected; the request \<open>setValue\<close> for the device \<open>rtu1\<close> with the id 7 is
  answered with the status \<open>success\<close>, and that answer is sent to the gateway.
\<close>

theorem rpc_while_disconnected_counterexample:
  "\<not> is_connected fresh
   \<and> fst (server_side_rpc_handler example_env example_rpc fresh) =
       PDict [(''status'', PStr ''success''),
              (''message'', PStr ''RPC method 'setValue' for device 'rtu1' processed (simulated).'')]
   \<and> gateway (snd (server_side_rpc_handler example_env example_rpc fresh)) =
       [SendRpcReply (PStr ''rtu1'') (PInt 7)
          (PDict [(''status'', PStr ''success''),
              (''message'', PStr ''RPC method 'setValue' for device 'rtu1' processed (simulated).'')])]"
  by (simp add: server_side_rpc_handler_def log_msg_def Let_def dict_get_def fresh_def
      iecConnector_init_def example_env_def example_rpc_def is_connected_def)

text \<open>
  Claim C1, as the code has it.  The handler does not look at the connection: a request
  that arrives while the connector is not connected gets the reply, and the gateway the
  calls, that the same request gets when the connector is connected.  The status of the
  reply is \<open>success\<close>; the reply is sent to the gateway with \<open>send_rpc_reply\<close>, once,
  when the \<open>id\<close> of the request is truthy, and not at all otherwise; the connector is
  still not connected afterwards.
\<close>

theorem rpc_ignores_connection_state:
  assumes "\<not> is_connected s"
  shows "fst (server_side_rpc_handler env content s) =
           fst (server_side_rpc_handler env content (s\<lparr>connected := True\<rparr>))
         \<and> gateway (snd (server_side_rpc_handler env content s)) =
           gateway (snd (server_side_rpc_handler env content (s\<lparr>connected := True\<rparr>)))
         \<and> payload_get (fst (server_side_rpc_handler env content s)) ''status'' = PStr ''success''
         \<and> gateway (snd (server_side_rpc_handler env content s)) =
             gateway s @
             (if truthy (dict_get content ''id'' PNone)
              then [SendRpcReply (dict_get content (DEVICE_SECTION_PARAMETER env) PNone)
                      (dict_get content ''id'' PNone)
                      (fst (server_side_rpc_handler env content s))]
              else [])
         \<and> \<not> is_connected (snd (server_side_rpc_handler env content s))"
  using assms
  by (simp add: server_side_rpc_handler_def log_msg_def Let_def dict_get_def payload_get_def
      is_connected_def)

theorem rpc_ignores_connection_state_witness:
  "\<not> is_connected fresh
   \<and> payload_get (fst (server_side_rpc_handler example_env example_rpc fresh)) ''status''
       = PStr ''success''
   \<and> fst (server_side_rpc_handler example_env example_rpc fresh) =
       fst (server_side_rpc_handler example_env example_rpc (fresh\<lparr>connected := True\<rparr>))
   \<and> gateway (snd (server_side_rpc_handler example_env example_rpc fresh)) =
       [SendRpcReply (PStr ''rtu1'') (PInt 7)
          (fst (server_side_rpc_handler example_env example_rpc fresh))]
   \<and> \<not> is_connected (snd (server_side_rpc_handler example_env example_rpc fresh))"
proof -
  have h: "\<not> is_connected fresh"
    by (simp add: is_connected_def fresh_def iecConnector_init_def)
  have g: "gateway fresh = []" "truthy (dict_get example_rpc ''id'' PNone)"
    "dict_get example_rpc (DEVICE_SECTION_PARAMETER example_env) PNone = PStr ''rtu1''"
    "dict_get example_rpc ''id'' PNone = PInt 7"
    by (simp_all add: fresh_def iecConnector_init_def example_rpc_def example_env_def
        dict_get_def)
  note th = rpc_ignores_connection_state [OF h, of example_env example_rpc]
  from th have "gateway (snd (server_side_rpc_handler example_env example_rpc fresh)) =
      gateway fresh @
      (if truthy (dict_get example_rpc ''id'' PNone)
       then [SendRpcReply (dict_get example_rpc (DEVICE_SECTION_PARAMETER example_env) PNone)
               (dict_get example_rpc ''id'' PNone)
               (fst (server_side_rpc_handler example_env example_rpc fresh))]
       else [])"
    by blast
  with g have "gateway (snd (server_side_rpc_handler example_env example_rpc fresh)) =
      [SendRpcReply (PStr ''rtu1'') (PInt 7)
         (fst (server_side_rpc_handler example_env example_rpc fresh))]"
    by simp
  with h th show ?thesis by blast
qed

section \<open>Opening\<close>

text \<open>
  Claim C2 says that \<open>open\<close> always leads to a connected connector.  A thread object
  starts once: on a connector that was opened, got connected and was closed, a second
  \<open>open\<close> raises \<open>RuntimeError\<close>, the connector is not connected, and no step of its
  worker, which is over, changes anything.
\<close>

theorem reopen_counterexample:
  "fst (open_ext reopened) = Inl RuntimeError
   \<and> \<not> is_connected (snd (open_ext reopened))
   \<and> run_step example_env (snd (open_ext reopened)) = snd (open_ext reopened)"
  by (simp add: example_defs method_defs)

text \<open>
  Claim C2, as the code has it.  \<open>open\<close> of the connectors package sets the connected
  flag at once, in every state.  \<open>open\<close> of the extensions package returns normally
  exactly on a connector whose thread was never started; its worker then sleeps the one
  second of the simulated connection in its first step and sets the flag in its second,
  without a call to the gateway.  The step that ends this sleep sets the flag in every
  state: nothing is tested, there is no handshake, no timeout and no failure.  On a
  connector whose thread was started before, \<open>open\<close> raises \<open>RuntimeError\<close> and
  connects nothing: it leaves the connected flag, the worker and the gateway as they
  were, and when the worker is over no step of it changes the connector any more.
\<close>

theorem open_connects_when_started:
  "is_connected_pkg (open_pkg p)
   \<and> (fst (open_ext s) = Inr ()) = (thread s = Initial)
   \<and> (thread s = Initial \<longrightarrow>
        sleeps (run_step env (snd (open_ext s))) = sleeps s @ [PInt 1]
        \<and> is_connected (run_step env (run_step env (snd (open_ext s))))
        \<and> gateway (run_step env (run_step env (snd (open_ext s)))) = gateway s)
   \<and> (thread w = Connecting \<longrightarrow> is_connected (run_step env w))
   \<and> (thread r \<noteq> Initial \<longrightarrow>
        fst (open_ext r) = Inl RuntimeError
        \<and> is_connected (snd (open_ext r)) = is_connected r
        \<and> thread (snd (open_ext r)) = thread r
        \<and> gateway (snd (open_ext r)) = gateway r
        \<and> sleeps (snd (open_ext r)) = sleeps r)
   \<and> (thread r = Finished \<or> thread r = Crashed \<longrightarrow>
        run_worker env n (snd (open_ext r)) = snd (open_ext r)
        \<and> run_step env (snd (open_ext r)) = snd (open_ext r))"
proof -
  have "thread r = Finished \<or> thread r = Crashed \<longrightarrow>
        run_worker env n (snd (open_ext r)) = snd (open_ext r)
        \<and> run_step env (snd (open_ext r)) = snd (open_ext r)"
    by (cases n) (auto simp: method_defs)
  moreover have "thread r \<noteq> Initial \<longrightarrow>
        fst (open_ext r) = Inl RuntimeError
        \<and> is_connected (snd (open_ext r)) = is_connected r
        \<and> thread (snd (open_ext r)) = thread r
        \<and> gateway (snd (open_ext r)) = gateway r
        \<and> sleeps (snd (open_ext r)) = sleeps r"
    by (simp add: method_defs)
  moreover have "is_connected_pkg (open_pkg p)
   \<and> (fst (open_ext s) = Inr ()) = (thread s = Initial)
   \<and> (thread s = Initial \<longrightarrow>
        sleeps (run_step env (snd (open_ext s))) = sleeps s @ [PInt 1]
        \<and> is_connected (run_step env (run_step env (snd (open_ext s))))
        \<and> gateway (run_step env (run_step env (snd (open_ext s)))) = gateway s)
   \<and> (thread w = Connecting \<longrightarrow> is_connected (run_step env w))"
    by (simp add: open_pkg_def is_connected_pkg_def method_defs)
  ultimately show ?thesis by blast
qed

theorem open_connects_when_started_witness:
  "thread fresh = Initial
   \<and> thread (run_step example_env opened) = Connecting
   \<and> thread reopened = Finished
   \<and> \<not> is_connected reopened
   \<and> is_connected_pkg (open_pkg fresh_pkg)
   \<and> fst (open_ext fresh) = Inr ()
   \<and> sleeps (run_step example_env (snd (open_ext fresh))) = [PInt 1]
   \<and> is_connected (run_step example_env (run_step example_env (snd (open_ext fresh))))
   \<and> is_connected (run_step example_env (run_step example_env opened))
   \<and> fst (open_ext reopened) = Inl RuntimeError
   \<and> \<not> is_connected (snd (open_ext reopened))
   \<and> \<not> is_connected (run_worker example_env 5 (snd (open_ext reopened)))"
proof -
  have h1: "thread fresh = Initial"
    by (simp add: example_defs)
  have h2: "thread (run_step example_env opened) = Connecting"
    by (simp add: example_defs method_defs)
  have h3: "sleeps fresh = []"
    by (simp add: example_defs)
  have h4: "thread reopened = Finished" "\<not> is_connected reopened"
    by (simp_all add: example_defs method_defs)
  show ?thesis
    using h1 h2 h3 h4
      open_connects_when_started
        [of fresh_pkg fresh example_env "run_step example_env opened" reopened 5]
    by simp
qed

section \<open>The worker and the stop flag\<close>

text \<open>A step of the worker writes to the log only at the end, and never the warning.\<close>

lemma run_step_logger:
  "\<exists>xs. logger (run_step env s) = logger s @ xs \<and> count_list xs timeout_warning = 0"
  by (simp add: run_step_def log_msg_def Let_def timeout_warning_def split: thread_state.splits)

lemma run_worker_logger:
  "\<exists>xs. logger (run_worker env n s) = logger s @ xs \<and> count_list xs timeout_warning = 0"
proof (induction n arbitrary: s)
  case 0
  show ?case by simp
next
  case (Suc n)
  show ?case
  proof (cases "is_alive s")
    case False
    then show ?thesis by simp
  next
    case True
    obtain xs where xs: "logger (run_step env s) = logger s @ xs"
      "count_list xs timeout_warning = 0"
      using run_step_logger by blast
    obtain ys where ys: "logger (run_worker env n (run_step env s)) = logger (run_step env s) @ ys"
      "count_list ys timeout_warning = 0"
      using Suc.IH by blast
    have "logger (run_worker env (Suc n) s) = logger s @ (xs @ ys)"
      using True xs ys by simp
    moreover have "count_list (xs @ ys) timeout_warning = 0"
      using xs ys by simp
    ultimately show ?thesis by blast
  qed
qed

text \<open>
  Once the stop flag is set, the worker keeps it and no test of its loop passes: the
  rounds begun stay what they are, and a worker that is not between a test and its body
  does not get there.
\<close>

lemma run_step_stopped:
  "stopped s \<Longrightarrow>
   stopped (run_step env s) \<and> rounds_begun (run_step env s) = rounds_begun s
   \<and> thread (run_step env s) \<noteq> LoopBody"
  by (cases "thread s")
     (simp_all add: run_step_def log_msg_def Let_def rounds_begun_def loop_entries_def
        loop_template_def)

lemma run_worker_stopped:
  "stopped s \<Longrightarrow>
   stopped (run_worker env n s) \<and> rounds_begun (run_worker env n s) = rounds_begun s
   \<and> (thread s \<noteq> LoopBody \<longrightarrow> thread (run_worker env n s) \<noteq> LoopBody)"
proof (induction n arbitrary: s)
  case 0
  then show ?case by simp
next
  case (Suc n)
  from run_step_stopped [OF Suc.prems, of env]
  have r: "stopped (run_step env s)" "rounds_begun (run_step env s) = rounds_begun s"
    "thread (run_step env s) \<noteq> LoopBody"
    by simp_all
  from Suc.IH [OF r(1)] r(2) r(3) Suc.prems show ?case by simp
qed

lemma close_unfold:
  "close env n s =
     (let s3 = (log_msg INFO ''Closing IEC connector and stopping its thread.'' [] s)
                 \<lparr>stopped := True, connected := False\<rparr>;
          j = run_worker env n (s3\<lparr>thread_calls := thread_calls s3 @ [Join 5]\<rparr>);
          s4 = (if is_alive s then
                  (if is_alive j then j\<lparr>logger := logger j @ [timeout_warning]\<rparr> else j)
                else s3)
      in s4\<lparr>logger := logger s4 @
              [Log INFO ''IEC connector thread stopped and resources cleaned.'' [], StopLogger]\<rparr>)"
  by (simp add: close_def join_def log_msg_def Let_def is_alive_def timeout_warning_def)

lemma rounds_begun_logger_append:
  "filter is_loop_entry xs = [] \<Longrightarrow>
   rounds_begun (s\<lparr>logger := logger s @ xs\<rparr>) = rounds_begun s"
  by (simp add: rounds_begun_def loop_entries_def)

lemma close_stopped:
  "stopped (close env n s) \<and> rounds_begun (close env n s) = rounds_begun s
   \<and> (thread s \<noteq> LoopBody \<longrightarrow> thread (close env n s) \<noteq> LoopBody)"
proof -
  define s3 where "s3 = (log_msg INFO ''Closing IEC connector and stopping its thread.'' [] s)
               \<lparr>stopped := True, connected := False\<rparr>"
  define j0 where "j0 = s3\<lparr>thread_calls := thread_calls s3 @ [Join 5]\<rparr>"
  define j where "j = run_worker env n j0"
  define s4 where "s4 = (if is_alive s then
                  (if is_alive j then j\<lparr>logger := logger j @ [timeout_warning]\<rparr> else j)
                else s3)"
  have s3: "stopped s3" "rounds_begun s3 = rounds_begun s" "thread s3 = thread s"
    by (simp_all add: s3_def log_msg_def rounds_begun_def loop_entries_def)
  have j0: "stopped j0" "rounds_begun j0 = rounds_begun s" "thread j0 = thread s"
    using s3 by (simp_all add: j0_def rounds_begun_def loop_entries_def)
  from run_worker_stopped [OF j0(1), of env n] j0(2) j0(3)
  have j: "stopped j" "rounds_begun j = rounds_begun s"
    "thread s \<noteq> LoopBody \<longrightarrow> thread j \<noteq> LoopBody"
    by (simp_all add: j_def)
  have "filter is_loop_entry [timeout_warning] = []"
    by (simp add: timeout_warning_def)
  from rounds_begun_logger_append [OF this, of j] j(2)
  have jw: "rounds_begun (j\<lparr>logger := logger j @ [timeout_warning]\<rparr>) = rounds_begun s"
    by simp
  have s4: "stopped s4" "rounds_begun s4 = rounds_begun s"
    "thread s \<noteq> LoopBody \<longrightarrow> thread s4 \<noteq> LoopBody"
    using s3 j jw by (simp_all add: s4_def)
  have c: "close env n s = s4\<lparr>logger := logger s4 @
              [Log INFO ''IEC connector thread stopped and resources cleaned.'' [], StopLogger]\<rparr>"
    by (simp add: close_unfold j_def j0_def s3_def s4_def Let_def)
  have "filter is_loop_entry
          [Log INFO ''IEC connector thread stopped and resources cleaned.'' [], StopLogger] = []"
    by simp
  from rounds_begun_logger_append [OF this, of s4] s4(2)
  have "rounds_begun (close env n s) = rounds_begun s"
    by (simp add: c)
  with s4 show ?thesis
    by (simp add: c)
qed

lemma server_side_rpc_handler_stopped:
  "stopped (snd (server_side_rpc_handler env c s)) = stopped s
   \<and> rounds_begun (snd (server_side_rpc_handler env c s)) = rounds_begun s
   \<and> thread (snd (server_side_rpc_handler env c s)) = thread s"
  by (simp add: server_side_rpc_handler_def log_msg_def Let_def rounds_begun_def
      loop_entries_def loop_template_def)

lemma on_attributes_update_stopped:
  "stopped (on_attributes_update env c s) = stopped s
   \<and> rounds_begun (on_attributes_update env c s) = rounds_begun s
   \<and> thread (on_attributes_update env c s) = thread s"
  by (simp add: on_attributes_update_def log_msg_def Let_def rounds_begun_def
      loop_entries_def loop_template_def)

lemma apply_event_stopped:
  "stopped s \<Longrightarrow> e \<noteq> Open \<Longrightarrow>
   stopped (apply_event env e s) \<and> rounds_begun (apply_event env e s) = rounds_begun s
   \<and> (thread s \<noteq> LoopBody \<longrightarrow> thread (apply_event env e s) \<noteq> LoopBody)"
  by (cases e) (simp_all add: close_stopped server_side_rpc_handler_stopped
      on_attributes_update_stopped run_step_stopped)

lemma run_events_stopped:
  "stopped s \<Longrightarrow> Open \<notin> set es \<Longrightarrow>
   stopped (run_events env es s) \<and> rounds_begun (run_events env es s) = rounds_begun s
   \<and> (thread s \<noteq> LoopBody \<longrightarrow> thread (run_events env es s) \<noteq> LoopBody)"
proof (induction es arbitrary: s)
  case Nil
  then show ?case by simp
next
  case (Cons e es)
  from Cons.prems have e: "e \<noteq> Open" and es: "Open \<notin> set es"
    by auto
  from apply_event_stopped [OF Cons.prems(1) e, of env]
  have a: "stopped (apply_event env e s)"
    "rounds_begun (apply_event env e s) = rounds_begun s"
    "thread s \<noteq> LoopBody \<longrightarrow> thread (apply_event env e s) \<noteq> LoopBody"
    by simp_all
  from Cons.IH [OF a(1) es] a(2) a(3) show ?case by simp
qed

lemma stopped_worker_ends:
  "stopped s \<Longrightarrow> \<not> is_alive (run_worker env 3 s)"
  by (cases "thread s")
     (simp_all add: numeral_3_eq_3 is_alive_def run_step_def log_msg_def Let_def)

text \<open>
  Claim C5 says that once \<open>close\<close> has set the stop flag the body of the loop is not
  entered again.  The worker tests the flag and then runs the body; \<open>close\<close> can set the
  flag in between.  Here the worker has run one round, has woken up and has passed the
  test of the second round when \<open>close\<close> is called: the flag is set, and during the join
  the worker enters the body, writes its line a second time and goes to sleep for
  another polling interval.
\<close>

theorem round_after_stop_counterexample:
  "\<not> is_stopped in_round
   \<and> thread in_round = LoopBody
   \<and> loop_entries in_round = 1
   \<and> sleeps in_round = [PInt 1, PInt 5]
   \<and> is_stopped (close example_env 1 in_round)
   \<and> loop_entries (close example_env 1 in_round) = 2
   \<and> sleeps (close example_env 1 in_round) = [PInt 1, PInt 5, PInt 5]
   \<and> thread (close example_env 1 in_round) = Polling"
  by (simp add: example_defs method_defs loop_entries_def loop_template_def)

text \<open>
  Claim C5, as the code has it.  \<open>close\<close> sets the stop flag.  From a state in which the
  flag is set, whatever the gateway calls apart from \<open>open\<close> (which clears the flag)
  and whenever the worker is scheduled, the flag stays set and no test of the loop of
  \<open>run\<close> passes: the number of rounds begun does not change.  The body is entered at
  most once more, by a round whose test had passed before the flag was set, and not at
  all when the worker was not between a test and its body.  A worker that reaches the
  test of the loop with the flag set leaves the loop, and a worker that finds the flag
  set is over after at most three steps.
\<close>

theorem stop_flag_lets_no_test_pass:
  assumes "is_stopped s" and "Open \<notin> set es"
  shows "is_stopped (run_events env es s)
         \<and> rounds_begun (run_events env es s) = rounds_begun s
         \<and> loop_entries (run_events env es s) \<le> loop_entries s + 1
         \<and> (thread s \<noteq> LoopBody \<longrightarrow> loop_entries (run_events env es s) = loop_entries s)
         \<and> (thread s = LoopTest \<longrightarrow>
              thread (run_step env s) = Finished
              \<and> loop_entries (run_step env s) = loop_entries s)
         \<and> \<not> is_alive (run_worker env 3 s)
         \<and> is_stopped (close env n c)"
proof -
  let ?s' = "run_events env es s"
  from assms(1) have st: "stopped s"
    by (simp add: is_stopped_def)
  from run_events_stopped [OF st assms(2), of env]
  have r: "stopped ?s'" "rounds_begun ?s' = rounds_begun s"
    "thread s \<noteq> LoopBody \<longrightarrow> thread ?s' \<noteq> LoopBody"
    by simp_all
  have "loop_entries ?s' \<le> rounds_begun ?s'"
    by (simp add: rounds_begun_def)
  with r(2) have le: "loop_entries ?s' \<le> loop_entries s + 1"
    by (simp add: rounds_begun_def split: if_splits)
  have eq: "thread s \<noteq> LoopBody \<longrightarrow> loop_entries ?s' = loop_entries s"
    using r(2) r(3) by (simp add: rounds_begun_def split: if_splits)
  have t1: "thread s = LoopTest \<longrightarrow>
              thread (run_step env s) = Finished
              \<and> loop_entries (run_step env s) = loop_entries s"
    using st by (simp add: run_step_def log_msg_def Let_def loop_entries_def)
  have t2: "\<not> is_alive (run_worker env 3 s)"
    using st by (rule stopped_worker_ends)
  have t3: "is_stopped (close env n c)"
    by (simp add: is_stopped_def close_stopped)
  from r(1) have "is_stopped ?s'"
    by (simp add: is_stopped_def)
  with r(2) le eq t1 t2 t3 show ?thesis by blast
qed

theorem stop_flag_lets_no_test_pass_witness:
  "is_stopped woken
   \<and> Open \<notin> set [WorkerStep, ServerSideRpc example_rpc, Close 2, WorkerStep]
   \<and> thread woken \<noteq> LoopBody
   \<and> thread woken = LoopTest
   \<and> loop_entries woken = 1
   \<and> loop_entries
        (run_events example_env [WorkerStep, ServerSideRpc example_rpc, Close 2, WorkerStep]
           woken) = 1
   \<and> thread (run_step example_env woken) = Finished
   \<and> \<not> is_alive (run_worker example_env 3 woken)
   \<and> is_stopped (close example_env 0 looping)"
proof -
  have h1: "Open \<notin> set [WorkerStep, ServerSideRpc example_rpc, Close 2, WorkerStep]"
    by simp
  have h2: "is_stopped woken"
    by (simp add: example_defs method_defs)
  have h3: "thread woken = LoopTest" "thread woken \<noteq> LoopBody"
    by (simp_all add: example_defs method_defs)
  have h4: "loop_entries woken = 1"
    by (simp add: example_defs method_defs loop_entries_def loop_template_def)
  show ?thesis
    using h1 h2 h3 h4
      stop_flag_lets_no_test_pass [OF h2 h1, of example_env 0 looping]
    by simp
qed

section \<open>Closing\<close>

text \<open>
  Claim C4.  \<open>close\<close> joins the worker at most once, and only with the timeout of five
  seconds: once when the worker is alive, not at all otherwise.  However far the worker
  gets within the bound, \<open>close\<close> goes on: it writes the warning exactly when the
  worker is still alive after the join, and in every case it ends with the line that the
  thread is stopped and with \<open>log.stop()\<close>, the stop flag set.
\<close>

theorem close_waits_at_most_five_seconds:
  "thread_calls (close env n s) = thread_calls s @ (if is_alive s then [Join 5] else [])
   \<and> count_list (logger (close env n s)) timeout_warning =
       count_list (logger s) timeout_warning + (if is_alive (close env n s) then 1 else 0)
   \<and> (\<exists>xs. logger (close env n s) =
             logger s @ xs @
             [Log INFO ''IEC connector thread stopped and resources cleaned.'' [], StopLogger])
   \<and> is_stopped (close env n s)"
proof -
  define s3 where "s3 = (log_msg INFO ''Closing IEC connector and stopping its thread.'' [] s)
               \<lparr>stopped := True, connected := False\<rparr>"
  define j0 where "j0 = s3\<lparr>thread_calls := thread_calls s3 @ [Join 5]\<rparr>"
  define j where "j = run_worker env n j0"
  obtain xs where xs: "logger j = logger j0 @ xs" "count_list xs timeout_warning = 0"
    unfolding j_def using run_worker_logger by blast
  have l0: "logger j0 = logger s @ [Log INFO ''Closing IEC connector and stopping its thread.'' []]"
    by (simp add: j0_def s3_def log_msg_def)
  have tc: "thread_calls j = thread_calls s @ [Join 5]"
    by (simp add: j_def run_worker_frame j0_def s3_def log_msg_def)
  have st: "stopped j"
    unfolding j_def by (rule run_worker_stopped [THEN conjunct1]) (simp add: j0_def s3_def)
  have s3: "thread s3 = thread s" "stopped s3" "thread_calls s3 = thread_calls s"
    "logger s3 = logger s @ [Log INFO ''Closing IEC connector and stopping its thread.'' []]"
    by (simp_all add: s3_def log_msg_def)
  have c: "close env n s =
     (let s4 = (if is_alive s then
                  (if is_alive j then j\<lparr>logger := logger j @ [timeout_warning]\<rparr> else j)
                else s3)
      in s4\<lparr>logger := logger s4 @
              [Log INFO ''IEC connector thread stopped and resources cleaned.'' [], StopLogger]\<rparr>)"
    by (simp add: close_unfold j_def j0_def s3_def Let_def)
  have w: "Log INFO ''Closing IEC connector and stopping its thread.'' [] \<noteq> timeout_warning"
    "Log INFO ''IEC connector thread stopped and resources cleaned.'' [] \<noteq> timeout_warning"
    "StopLogger \<noteq> timeout_warning"
    by (simp_all add: timeout_warning_def)
  show ?thesis
  proof (cases "is_alive s")
    case False
    then show ?thesis
      using s3 w by (simp add: c Let_def is_alive_def is_stopped_def)
  next
    case True
    show ?thesis
    proof (cases "is_alive j")
      case False
      with True show ?thesis
        using xs l0 tc st w by (simp add: c Let_def is_alive_def is_stopped_def)
    next
      case alive: True
      with True show ?thesis
        using xs l0 tc st w by (simp add: c Let_def is_alive_def is_stopped_def)
    qed
  qed
qed

theorem close_waits_at_most_five_seconds_witness:
  "is_alive looping
   \<and> is_alive (close example_env 0 looping)
   \<and> thread_calls (close example_env 0 looping) = [Start, Join 5]
   \<and> count_list (logger (close example_env 0 looping)) timeout_warning = 1
   \<and> is_stopped (close example_env 0 looping)"
proof -
  have h: "is_alive looping" "thread_calls looping = [Start]"
    "count_list (logger looping) timeout_warning = 0"
    by (simp_all add: looping_def example_defs method_defs timeout_warning_def)
  have a: "is_alive (close example_env 0 looping)"
    by (simp add: looping_def example_defs method_defs)
  show ?thesis
    using h a close_waits_at_most_five_seconds [of example_env 0 looping] by simp
qed

text \<open>
  Claim C3 says that after \<open>close\<close> the connector is stopped and not connected, and
  that a second \<open>close\<close> changes neither.  \<open>close\<close> clears the connected flag before
  it joins the worker.  When it is called right after \<open>open\<close>, the worker ends its
  simulated connection during the join, within the five seconds, and sets the flag
  again: the first \<open>close\<close> returns with the worker over and the connector connected,
  and only the second \<open>close\<close> leaves it not connected.
\<close>

theorem close_after_early_close_differs:
  "is_connected (close example_env 3 opened) = True
   \<and> is_stopped (close example_env 3 opened) = True
   \<and> is_alive (close example_env 3 opened) = False
   \<and> is_connected (close example_env 0 (close example_env 3 opened)) = False
   \<and> is_stopped (close example_env 0 (close example_env 3 opened)) = True"
  by (simp add: example_defs method_defs numeral_3_eq_3)

text \<open>
  Away from that window, with a worker that was never started or is past its simulated
  connection, \<open>close\<close> leaves the connector stopped and not connected, and a second
  \<open>close\<close> changes neither answer.
\<close>

lemma run_step_past_connecting:
  "thread s \<noteq> Started \<Longrightarrow> thread s \<noteq> Connecting \<Longrightarrow>
   thread (run_step env s) \<noteq> Started \<and> thread (run_step env s) \<noteq> Connecting
   \<and> connected (run_step env s) = connected s"
  by (cases "thread s") (simp_all add: run_step_def log_msg_def Let_def)

lemma run_worker_past_connecting:
  "thread s \<noteq> Started \<Longrightarrow> thread s \<noteq> Connecting \<Longrightarrow>
   thread (run_worker env n s) \<noteq> Started \<and> thread (run_worker env n s) \<noteq> Connecting
   \<and> connected (run_worker env n s) = connected s"
proof (induction n arbitrary: s)
  case 0
  then show ?case by simp
next
  case (Suc n)
  from run_step_past_connecting [OF Suc.prems, of env]
  have r: "thread (run_step env s) \<noteq> Started" "thread (run_step env s) \<noteq> Connecting"
    "connected (run_step env s) = connected s"
    by simp_all
  from Suc.IH [OF r(1) r(2)] r(3) Suc.prems show ?case by simp
qed

lemma close_past_connecting:
  assumes "thread s \<noteq> Started" "thread s \<noteq> Connecting"
  shows "thread (close env n s) \<noteq> Started \<and> thread (close env n s) \<noteq> Connecting
         \<and> \<not> is_connected (close env n s) \<and> is_stopped (close env n s)"
proof -
  define s3 where "s3 = (log_msg INFO ''Closing IEC connector and stopping its thread.'' [] s)
               \<lparr>stopped := True, connected := False\<rparr>"
  define j0 where "j0 = s3\<lparr>thread_calls := thread_calls s3 @ [Join 5]\<rparr>"
  define j where "j = run_worker env n j0"
  have s3: "thread s3 = thread s" "\<not> connected s3"
    by (simp_all add: s3_def log_msg_def)
  have j0: "thread j0 \<noteq> Started" "thread j0 \<noteq> Connecting" "\<not> connected j0"
    using assms s3 by (simp_all add: j0_def)
  from run_worker_past_connecting [OF j0(1) j0(2), of env n] j0(3)
  have j: "thread j \<noteq> Started" "thread j \<noteq> Connecting" "\<not> connected j"
    by (simp_all add: j_def)
  have "close env n s =
     (let s4 = (if is_alive s then
                  (if is_alive j then j\<lparr>logger := logger j @ [timeout_warning]\<rparr> else j)
                else s3)
      in s4\<lparr>logger := logger s4 @
              [Log INFO ''IEC connector thread stopped and resources cleaned.'' [], StopLogger]\<rparr>)"
    by (simp add: close_unfold j_def j0_def s3_def Let_def)
  then show ?thesis
    using assms s3 j close_stopped [of env n s]
    by (simp add: Let_def is_connected_def is_stopped_def)
qed

lemma close_pkg_twice:
  "close_pkg s = s' \<Longrightarrow>
   \<not> is_connected_pkg s' \<and> is_connected_pkg (close_pkg s') = is_connected_pkg s'"
  by (auto simp: close_pkg_def is_connected_pkg_def)

lemma close_twice_when_past_connecting:
  assumes "thread s \<noteq> Started" "thread s \<noteq> Connecting"
  shows "is_connected (close env m (close env n s)) = is_connected (close env n s)
         \<and> is_stopped (close env m (close env n s)) = is_stopped (close env n s)"
proof -
  from close_past_connecting [OF assms, of env n]
  have a: "thread (close env n s) \<noteq> Started" "thread (close env n s) \<noteq> Connecting"
    "\<not> is_connected (close env n s)" "is_stopped (close env n s)"
    by simp_all
  from close_past_connecting [OF a(1) a(2), of env m] a(3) a(4)
  show ?thesis by simp
qed

end
